theory Spec2Isabelle
  imports Main
begin

section \<open>The collaborators of \<^verbatim>\<open>sipsimple/primitives.py\<close>\<close>

text \<open>
  \<^verbatim>\<open>primitives.py\<close> holds three session classes, \<^verbatim>\<open>Registration\<close>, \<^verbatim>\<open>Message\<close> and
  \<^verbatim>\<open>Publication\<close>. Each of them drives \<^verbatim>\<open>Request\<close> objects of \<^verbatim>\<open>sipsimple.core\<close> and talks
  to a \<^verbatim>\<open>NotificationCenter\<close>. Neither collaborator is part of the file: what the sessions
  ask of them is recorded in a trace, and what they answer is a parameter.

  Every method body runs under the session's \<^verbatim>\<open>RLock\<close>, so a method is one atomic step
  from a session state to a session state.
\<close>

type_synonym ref = nat
type_synonym timeout = "nat option"

text \<open>A header value: a plain string, or the list of contact URIs of a \<^verbatim>\<open>Contact\<close> header.\<close>

datatype hval = Str string | Uris "string list"

type_synonym headers = "string \<rightharpoonup> hval"

record sip_uri =
  user :: "string option"
  host :: string

definition SIPURI :: "string \<Rightarrow> sip_uri" where
  "SIPURI h = \<lparr>user = None, host = h\<rparr>"

text \<open>
  Modelled from the spec: the class \<^verbatim>\<open>Request\<close> of \<^verbatim>\<open>sipsimple.core\<close>, which is not in
  the repository's sources. A request object is the record of the arguments its
  constructor was given, together with \<open>rid\<close>, the identity of the object (Python's
  \<^verbatim>\<open>is\<close> compares identities). Its read-only attributes \<^verbatim>\<open>cseq\<close>, \<^verbatim>\<open>route\<close> and
  \<^verbatim>\<open>contact_uri\<close> return the arguments.
\<close>

record request =
  rid :: ref
  req_method :: string
  from_uri :: sip_uri
  to_uri :: sip_uri
  request_uri :: sip_uri
  route :: string
  credentials :: "string option"
  contact_uri :: "sip_uri option"
  call_id :: "string option"
  cseq :: int
  extra_headers :: "(string \<times> hval) list"
  content_type :: "string option"
  body :: "string option"

datatype exn =
    ValueError string
  | PublicationError string
  | RuntimeError string
  | KeyError string
  | IndexError
  | EngineError string

text \<open>
  What the transaction engine decides: whether \<^verbatim>\<open>send\<close> raises for a request, the
  call-id it gives a request built without one, and the \<^verbatim>\<open>state\<close> attribute of a request.
\<close>

record engine =
  send_raises :: "request \<Rightarrow> exn option"
  generated_call_id :: "ref \<Rightarrow> string option"
  state_of :: "request \<Rightarrow> string"

text \<open>
  Modelled from the spec: the read-only attribute \<^verbatim>\<open>call_id\<close> of a \<^verbatim>\<open>Request\<close> (not in the
  sources). It is the call-id the constructor was given; a request built with
  \<^verbatim>\<open>call_id=None\<close> reports what the engine chose for it, which may still be absent.
\<close>

definition request_call_id :: "engine \<Rightarrow> request \<Rightarrow> string option" where
  "request_call_id eng r =
     (case call_id r of Some c \<Rightarrow> Some c | None \<Rightarrow> generated_call_id eng (rid r))"

datatype notification =
    SIPRegistrationWillEnd
  | SIPRegistrationDidEnd bool
  | SIPRegistrationDidSucceed int string "sip_uri option" hval int string
  | SIPRegistrationDidFail int string string
  | SIPRegistrationDidNotEnd int string
  | SIPRegistrationWillExpire int
  | SIPMessageDidSucceed
  | SIPMessageDidFail int string
  | SIPPublicationWillEnd
  | SIPPublicationDidEnd bool
  | SIPPublicationDidSucceed int string int string
  | SIPPublicationDidFail int string string
  | SIPPublicationDidNotEnd int string
  | SIPPublicationWillExpire int

text \<open>The calls a session makes on its collaborators.\<close>

datatype action =
    Construct request
  | AddObserver ref
  | RemoveObserver ref
  | Send ref timeout
  | EndRequest ref
  | Post notification

text \<open>
  The part of the state that belongs to the collaborators: the identity the next
  constructed object gets, and the calls made so far, oldest first.
\<close>

record env =
  next_ref :: ref
  trace :: "action list"

definition emit :: "action \<Rightarrow> 'a env_scheme \<Rightarrow> 'a env_scheme" where
  "emit a s = s\<lparr>trace := trace s @ [a]\<rparr>"

text \<open>\<^verbatim>\<open>request is held\<close>, for a field \<open>held\<close> that is \<^verbatim>\<open>None\<close> or a request.\<close>

definition is_same :: "request \<Rightarrow> request option \<Rightarrow> bool" where
  "is_same r held = (case held of None \<Rightarrow> False | Some h \<Rightarrow> rid h = rid r)"

text \<open>\<^verbatim>\<open>d[k]\<close> on a dictionary raises \<^verbatim>\<open>KeyError\<close> for a missing key.\<close>

definition getitem :: "headers \<Rightarrow> string \<Rightarrow> exn + hval" where
  "getitem d k = (case d k of None \<Rightarrow> Inl (KeyError k) | Some v \<Rightarrow> Inr v)"

text \<open>\<^verbatim>\<open>str\<close> of an integer.\<close>

fun str_nat :: "nat \<Rightarrow> string" where
  "str_nat n =
     (if n < 10 then [''0123456789'' ! n]
      else str_nat (n div 10) @ [''0123456789'' ! (n mod 10)])"

declare str_nat.simps [simp del]

definition str :: "int \<Rightarrow> string" where
  "str i = (if i < 0 then CHR ''-'' # str_nat (nat (- i)) else str_nat (nat i))"

section \<open>Registration\<close>

record registration = env +
  reg_uri :: sip_uri
  reg_credentials :: "string option"
  reg_duration :: int
  reg_current_request :: "request option"
  reg_last_request :: "request option"
  reg_unregistering :: bool

definition Registration :: "ref \<Rightarrow> sip_uri \<Rightarrow> string option \<Rightarrow> int \<Rightarrow> registration" where
  "Registration n u c d =
     \<lparr>next_ref = n, trace = [],
      reg_uri = u, reg_credentials = c, reg_duration = d,
      reg_current_request = None, reg_last_request = None, reg_unregistering = False\<rparr>"

definition reg_is_registered :: "registration \<Rightarrow> bool" where
  "reg_is_registered s = (reg_last_request s \<noteq> None)"

text \<open>\<^verbatim>\<open>self._current_request or self._last_request\<close>\<close>

definition reg_prev_request :: "registration \<Rightarrow> request option" where
  "reg_prev_request s =
     (case reg_current_request s of Some r \<Rightarrow> Some r | None \<Rightarrow> reg_last_request s)"

text \<open>The request that \<^verbatim>\<open>_make_and_send_request\<close> constructs (lines 45 to 54).\<close>

definition reg_new_request ::
  "engine \<Rightarrow> sip_uri option \<Rightarrow> string \<Rightarrow> bool \<Rightarrow> registration \<Rightarrow> request" where
  "reg_new_request eng contact rt do_register s =
     (let (cid, cs) =
            (case reg_prev_request s of
               Some prev \<Rightarrow> (request_call_id eng prev, cseq prev + 1)
             | None \<Rightarrow> (None, 1))
      in \<lparr>rid = next_ref s, req_method = ''REGISTER'',
          from_uri = reg_uri s, to_uri = reg_uri s, request_uri = SIPURI (host (reg_uri s)),
          route = rt, credentials = reg_credentials s, contact_uri = contact,
          call_id = cid, cseq = cs,
          extra_headers = [(''Expires'', Str (str (if do_register then reg_duration s else 0)))],
          content_type = None, body = None\<rparr>)"

definition reg_make_and_send_request ::
  "engine \<Rightarrow> sip_uri option \<Rightarrow> string \<Rightarrow> timeout \<Rightarrow> bool \<Rightarrow> registration
     \<Rightarrow> exn option \<times> registration" where
  "reg_make_and_send_request eng contact rt tmo do_register s =
     (let request = reg_new_request eng contact rt do_register s;
          s1 = (emit (Construct request) s)\<lparr>next_ref := Suc (next_ref s)\<rparr>;
          s2 = emit (AddObserver (rid request)) s1;
          s3 = (case reg_current_request s2 of
                  Some cur \<Rightarrow> (emit (EndRequest (rid cur)) s2)\<lparr>reg_current_request := None\<rparr>
                | None \<Rightarrow> s2);
          s4 = emit (Send (rid request) tmo) s3
      in case send_raises eng request of
           Some e \<Rightarrow> (Some e, emit (RemoveObserver (rid request)) s4)
         | None \<Rightarrow>
             (None, s4\<lparr>reg_current_request := Some request, reg_unregistering := \<not> do_register\<rparr>))"

definition reg_register ::
  "engine \<Rightarrow> sip_uri option \<Rightarrow> string \<Rightarrow> timeout \<Rightarrow> registration \<Rightarrow> exn option \<times> registration" where
  "reg_register eng contact rt tmo s = reg_make_and_send_request eng contact rt tmo True s"

definition reg_end :: "engine \<Rightarrow> timeout \<Rightarrow> registration \<Rightarrow> exn option \<times> registration" where
  "reg_end eng tmo s =
     (case reg_last_request s of
        None \<Rightarrow> (None, s)
      | Some lst \<Rightarrow>
          (case reg_make_and_send_request eng (contact_uri lst) (route lst) tmo False s of
             (Some e, s') \<Rightarrow> (Some e, s')
           | (None, s') \<Rightarrow> (None, emit (Post SIPRegistrationWillEnd) s')))"

definition reg_NH_SIPRequestDidSucceed ::
  "request \<Rightarrow> nat \<Rightarrow> int \<Rightarrow> string \<Rightarrow> headers \<Rightarrow> string option \<Rightarrow> int \<Rightarrow> registration
     \<Rightarrow> exn option \<times> registration" where
  "reg_NH_SIPRequestDidSucceed request timestamp code reason hdrs bdy expires s =
     (if \<not> is_same request (reg_current_request s) then (None, s)
      else
        let s1 = s\<lparr>reg_current_request := None\<rparr> in
        if reg_unregistering s1 then
          (let s2 = (case reg_last_request s1 of
                       Some lst \<Rightarrow> (emit (EndRequest (rid lst)) s1)\<lparr>reg_last_request := None\<rparr>
                     | None \<Rightarrow> s1)
           in (None, emit (Post (SIPRegistrationDidEnd False)) s2))
        else
          (let s2 = s1\<lparr>reg_last_request := Some request\<rparr> in
           case (case getitem hdrs ''Contact'' of
                   Inl IndexError \<Rightarrow> Inr (Uris [])
                 | Inl e \<Rightarrow> Inl e
                 | Inr v \<Rightarrow> Inr v) of
             Inl e \<Rightarrow> (Some e, s2)
           | Inr contact_uri_list \<Rightarrow>
               (None, emit (Post (SIPRegistrationDidSucceed code reason (contact_uri request)
                                    contact_uri_list expires (route request))) s2)))"

definition reg_NH_SIPRequestDidFail ::
  "request \<Rightarrow> nat \<Rightarrow> int \<Rightarrow> string \<Rightarrow> headers option \<Rightarrow> string option \<Rightarrow> registration
     \<Rightarrow> exn option \<times> registration" where
  "reg_NH_SIPRequestDidFail request timestamp code reason hdrs bdy s =
     (if \<not> is_same request (reg_current_request s) then (None, s)
      else
        let s1 = s\<lparr>reg_current_request := None\<rparr> in
        if reg_unregistering s1 then
          (None, emit (Post (SIPRegistrationDidNotEnd code reason)) s1)
        else
          (None, emit (Post (SIPRegistrationDidFail code reason (route request))) s1))"

definition reg_NH_SIPRequestWillExpire ::
  "request \<Rightarrow> nat \<Rightarrow> int \<Rightarrow> registration \<Rightarrow> exn option \<times> registration" where
  "reg_NH_SIPRequestWillExpire request timestamp expires s =
     (if \<not> is_same request (reg_last_request s) then (None, s)
      else (None, emit (Post (SIPRegistrationWillExpire expires)) s))"

definition reg_NH_SIPRequestDidEnd ::
  "request \<Rightarrow> nat \<Rightarrow> registration \<Rightarrow> exn option \<times> registration" where
  "reg_NH_SIPRequestDidEnd request timestamp s =
     (let s1 = emit (RemoveObserver (rid request)) s in
      if \<not> is_same request (reg_last_request s1) then (None, s1)
      else
        let s2 = s1\<lparr>reg_last_request := None\<rparr>;
            s3 = (case reg_current_request s2 of
                    Some cur \<Rightarrow> (emit (EndRequest (rid cur)) s2)\<lparr>reg_current_request := None\<rparr>
                  | None \<Rightarrow> s2)
        in (None, emit (Post (SIPRegistrationDidEnd True)) s3))"

section \<open>Message\<close>

record message = env +
  msg_request :: request

definition msg_is_sent :: "engine \<Rightarrow> message \<Rightarrow> bool" where
  "msg_is_sent eng s = (state_of eng (msg_request s) \<noteq> ''INIT'')"

definition msg_send :: "engine \<Rightarrow> timeout \<Rightarrow> message \<Rightarrow> exn option \<times> message" where
  "msg_send eng tmo s =
     (if msg_is_sent eng s then (Some (RuntimeError ''This MESSAGE was already sent''), s)
      else
        let s1 = emit (AddObserver (rid (msg_request s))) s;
            s2 = emit (Send (rid (msg_request s1)) tmo) s1
        in case send_raises eng (msg_request s2) of
             Some e \<Rightarrow> (None, emit (RemoveObserver (rid (msg_request s2))) s2)
           | None \<Rightarrow> (None, s2))"

definition msg_end :: "message \<Rightarrow> exn option \<times> message" where
  "msg_end s = (None, emit (EndRequest (rid (msg_request s))) s)"

definition msg_NH_SIPRequestDidSucceed ::
  "request \<Rightarrow> nat \<Rightarrow> int \<Rightarrow> string \<Rightarrow> headers \<Rightarrow> string option \<Rightarrow> int \<Rightarrow> message
     \<Rightarrow> exn option \<times> message" where
  "msg_NH_SIPRequestDidSucceed request timestamp code reason hdrs bdy expires s =
     (let s1 = (if expires \<noteq> 0 then emit (EndRequest (rid request)) s else s)
      in (None, emit (Post SIPMessageDidSucceed) s1))"

definition msg_NH_SIPRequestDidFail ::
  "request \<Rightarrow> nat \<Rightarrow> int \<Rightarrow> string \<Rightarrow> headers option \<Rightarrow> string option \<Rightarrow> message
     \<Rightarrow> exn option \<times> message" where
  "msg_NH_SIPRequestDidFail request timestamp code reason hdrs bdy s =
     (None, emit (Post (SIPMessageDidFail code reason)) s)"

definition msg_NH_SIPRequestDidEnd :: "request \<Rightarrow> nat \<Rightarrow> message \<Rightarrow> exn option \<times> message" where
  "msg_NH_SIPRequestDidEnd request timestamp s = (None, emit (RemoveObserver (rid request)) s)"

text \<open>
  \<^verbatim>\<open>Message.__init__\<close> constructs the one request of the session. The constructor's
  default for cseq is not in the sources; it is the parameter \<open>cs\<close>.
\<close>

definition Message ::
  "ref \<Rightarrow> int \<Rightarrow> sip_uri \<Rightarrow> sip_uri \<Rightarrow> string \<Rightarrow> string \<Rightarrow> string \<Rightarrow> string option
     \<Rightarrow> message" where
  "Message n cs from_u to_u rt ctype bdy creds =
     \<lparr>next_ref = Suc n, trace = [],
      msg_request =
        \<lparr>rid = n, req_method = ''MESSAGE'', from_uri = from_u, to_uri = to_u,
         request_uri = to_u, route = rt, credentials = creds, contact_uri = None,
         call_id = None, cseq = cs, extra_headers = [],
         content_type = Some ctype, body = Some bdy\<rparr>\<rparr>"

section \<open>Publication\<close>

record publication = env +
  pub_uri :: sip_uri
  pub_event :: string
  pub_content_type :: string
  pub_credentials :: "string option"
  pub_duration :: int
  pub_last_etag :: "hval option"
  pub_current_request :: "request option"
  pub_last_request :: "request option"
  pub_unpublishing :: bool

definition Publication ::
  "ref \<Rightarrow> sip_uri \<Rightarrow> string \<Rightarrow> string \<Rightarrow> string option \<Rightarrow> int \<Rightarrow> publication" where
  "Publication n u ev ct c d =
     \<lparr>next_ref = n, trace = [],
      pub_uri = u, pub_event = ev, pub_content_type = ct, pub_credentials = c,
      pub_duration = d, pub_last_etag = None,
      pub_current_request = None, pub_last_request = None, pub_unpublishing = False\<rparr>"

definition pub_is_published :: "publication \<Rightarrow> bool" where
  "pub_is_published s = (pub_last_request s \<noteq> None)"

text \<open>The request that \<^verbatim>\<open>_make_and_send_request\<close> constructs (lines 219 to 227).\<close>

definition pub_new_request ::
  "string option \<Rightarrow> string \<Rightarrow> bool \<Rightarrow> publication \<Rightarrow> request" where
  "pub_new_request bdy rt do_publish s =
     (let hs0 = [(''Event'', Str (pub_event s)),
                 (''Expires'', Str (str (if do_publish then pub_duration s else 0)))];
          hs = (case pub_last_etag s of
                  Some etag \<Rightarrow> hs0 @ [(''SIP-If-Match'', etag)]
                | None \<Rightarrow> hs0);
          ctype = (if bdy \<noteq> None then Some (pub_content_type s) else None)
      in \<lparr>rid = next_ref s, req_method = ''PUBLISH'',
          from_uri = pub_uri s, to_uri = pub_uri s, request_uri = pub_uri s,
          route = rt, credentials = pub_credentials s, contact_uri = None,
          call_id = None, cseq = 1,
          extra_headers = hs, content_type = ctype, body = bdy\<rparr>)"

definition pub_make_and_send_request ::
  "engine \<Rightarrow> string option \<Rightarrow> string \<Rightarrow> timeout \<Rightarrow> bool \<Rightarrow> publication
     \<Rightarrow> exn option \<times> publication" where
  "pub_make_and_send_request eng bdy rt tmo do_publish s =
     (let request = pub_new_request bdy rt do_publish s;
          s1 = (emit (Construct request) s)\<lparr>next_ref := Suc (next_ref s)\<rparr>;
          s2 = emit (AddObserver (rid request)) s1;
          s3 = (case pub_current_request s2 of
                  Some cur \<Rightarrow> (emit (EndRequest (rid cur)) s2)\<lparr>pub_current_request := None\<rparr>
                | None \<Rightarrow> s2);
          s4 = emit (Send (rid request) tmo) s3
      in case send_raises eng request of
           Some e \<Rightarrow> (Some e, emit (RemoveObserver (rid request)) s4)
         | None \<Rightarrow>
             (None, s4\<lparr>pub_current_request := Some request, pub_unpublishing := \<not> do_publish\<rparr>))"

definition pub_publish ::
  "engine \<Rightarrow> string option \<Rightarrow> string \<Rightarrow> timeout \<Rightarrow> publication \<Rightarrow> exn option \<times> publication" where
  "pub_publish eng bdy rt tmo s =
     (if bdy = None then
        (if pub_last_request s = None then
           (Some (ValueError ''Need body for initial PUBLISH''), s)
         else if pub_last_etag s = None then
           (Some (PublicationError ''Cannot refresh, last ETag was invalid''), s)
         else pub_make_and_send_request eng bdy rt tmo True s)
      else pub_make_and_send_request eng bdy rt tmo True s)"

definition pub_end :: "engine \<Rightarrow> timeout \<Rightarrow> publication \<Rightarrow> exn option \<times> publication" where
  "pub_end eng tmo s =
     (case pub_last_request s of
        None \<Rightarrow> (Some (PublicationError ''Nothing is currently published''), s)
      | Some lst \<Rightarrow>
          (case pub_make_and_send_request eng None (route lst) tmo False s of
             (Some e, s') \<Rightarrow> (Some e, s')
           | (None, s') \<Rightarrow> (None, emit (Post SIPPublicationWillEnd) s')))"

definition pub_NH_SIPRequestDidSucceed ::
  "request \<Rightarrow> nat \<Rightarrow> int \<Rightarrow> string \<Rightarrow> headers \<Rightarrow> string option \<Rightarrow> int \<Rightarrow> publication
     \<Rightarrow> exn option \<times> publication" where
  "pub_NH_SIPRequestDidSucceed request timestamp code reason hdrs bdy expires s =
     (if \<not> is_same request (pub_current_request s) then (None, s)
      else
        let s1 = s\<lparr>pub_current_request := None\<rparr> in
        if pub_unpublishing s1 then
          (let s2 = (case pub_last_request s1 of
                       Some lst \<Rightarrow> (emit (EndRequest (rid lst)) s1)\<lparr>pub_last_request := None\<rparr>
                     | None \<Rightarrow> s1);
               s3 = s2\<lparr>pub_last_etag := None\<rparr>
           in (None, emit (Post (SIPPublicationDidEnd False)) s3))
        else
          (let s2 = s1\<lparr>pub_last_request := Some request\<rparr>;
               s3 = s2\<lparr>pub_last_etag := hdrs ''SIP-ETag''\<rparr>
           in (None, emit (Post (SIPPublicationDidSucceed code reason expires (route request))) s3)))"

definition pub_NH_SIPRequestDidFail ::
  "request \<Rightarrow> nat \<Rightarrow> int \<Rightarrow> string \<Rightarrow> headers option \<Rightarrow> string option \<Rightarrow> publication
     \<Rightarrow> exn option \<times> publication" where
  "pub_NH_SIPRequestDidFail request timestamp code reason hdrs bdy s =
     (if \<not> is_same request (pub_current_request s) then (None, s)
      else
        let s1 = s\<lparr>pub_current_request := None\<rparr>;
            s2 = (if code = 412 then s1\<lparr>pub_last_etag := None\<rparr> else s1)
        in if pub_unpublishing s2 then
             (None, emit (Post (SIPPublicationDidNotEnd code reason)) s2)
           else
             (None, emit (Post (SIPPublicationDidFail code reason (route request))) s2))"

definition pub_NH_SIPRequestWillExpire ::
  "request \<Rightarrow> nat \<Rightarrow> int \<Rightarrow> publication \<Rightarrow> exn option \<times> publication" where
  "pub_NH_SIPRequestWillExpire request timestamp expires s =
     (if \<not> is_same request (pub_last_request s) then (None, s)
      else (None, emit (Post (SIPPublicationWillExpire expires)) s))"

definition pub_NH_SIPRequestDidEnd ::
  "request \<Rightarrow> nat \<Rightarrow> publication \<Rightarrow> exn option \<times> publication" where
  "pub_NH_SIPRequestDidEnd request timestamp s =
     (let s1 = emit (RemoveObserver (rid request)) s in
      if \<not> is_same request (pub_last_request s1) then (None, s1)
      else
        let s2 = s1\<lparr>pub_last_request := None\<rparr>;
            s3 = (case pub_current_request s2 of
                    Some cur \<Rightarrow> (emit (EndRequest (rid cur)) s2)\<lparr>pub_current_request := None\<rparr>
                  | None \<Rightarrow> s2);
            s4 = s3\<lparr>pub_last_etag := None\<rparr>
        in (None, emit (Post (SIPPublicationDidEnd True)) s4))"

section \<open>Sessions over time\<close>

text \<open>
  What can happen to a session: a call of one of its public methods, or one of the
  four notifications of a request, handled by the \<^verbatim>\<open>_NH_\<close> method of that name. An
  exception leaves the method, and the session goes on from the state the method
  left behind.
\<close>

datatype request_event =
    SIPRequestDidSucceed request nat int string headers "string option" int
  | SIPRequestDidFail request nat int string "headers option" "string option"
  | SIPRequestWillExpire request nat int
  | SIPRequestDidEnd request nat

datatype reg_input =
    RegRegister "sip_uri option" string timeout
  | RegEnd timeout
  | RegEvent request_event

fun reg_handle :: "request_event \<Rightarrow> registration \<Rightarrow> exn option \<times> registration" where
  "reg_handle (SIPRequestDidSucceed r ts code reason hdrs bdy expires) s =
     reg_NH_SIPRequestDidSucceed r ts code reason hdrs bdy expires s"
| "reg_handle (SIPRequestDidFail r ts code reason hdrs bdy) s =
     reg_NH_SIPRequestDidFail r ts code reason hdrs bdy s"
| "reg_handle (SIPRequestWillExpire r ts expires) s = reg_NH_SIPRequestWillExpire r ts expires s"
| "reg_handle (SIPRequestDidEnd r ts) s = reg_NH_SIPRequestDidEnd r ts s"

fun reg_step :: "engine \<Rightarrow> reg_input \<Rightarrow> registration \<Rightarrow> exn option \<times> registration" where
  "reg_step eng (RegRegister contact rt tmo) s = reg_register eng contact rt tmo s"
| "reg_step eng (RegEnd tmo) s = reg_end eng tmo s"
| "reg_step eng (RegEvent ev) s = reg_handle ev s"

fun reg_run :: "engine \<Rightarrow> reg_input list \<Rightarrow> registration \<Rightarrow> registration" where
  "reg_run eng [] s = s"
| "reg_run eng (i # ins) s = reg_run eng ins (snd (reg_step eng i s))"

datatype pub_input =
    PubPublish "string option" string timeout
  | PubEnd timeout
  | PubEvent request_event

fun pub_handle :: "request_event \<Rightarrow> publication \<Rightarrow> exn option \<times> publication" where
  "pub_handle (SIPRequestDidSucceed r ts code reason hdrs bdy expires) s =
     pub_NH_SIPRequestDidSucceed r ts code reason hdrs bdy expires s"
| "pub_handle (SIPRequestDidFail r ts code reason hdrs bdy) s =
     pub_NH_SIPRequestDidFail r ts code reason hdrs bdy s"
| "pub_handle (SIPRequestWillExpire r ts expires) s = pub_NH_SIPRequestWillExpire r ts expires s"
| "pub_handle (SIPRequestDidEnd r ts) s = pub_NH_SIPRequestDidEnd r ts s"

fun pub_step :: "engine \<Rightarrow> pub_input \<Rightarrow> publication \<Rightarrow> exn option \<times> publication" where
  "pub_step eng (PubPublish bdy rt tmo) s = pub_publish eng bdy rt tmo s"
| "pub_step eng (PubEnd tmo) s = pub_end eng tmo s"
| "pub_step eng (PubEvent ev) s = pub_handle ev s"

fun pub_run :: "engine \<Rightarrow> pub_input list \<Rightarrow> publication \<Rightarrow> publication" where
  "pub_run eng [] s = s"
| "pub_run eng (i # ins) s = pub_run eng ins (snd (pub_step eng i s))"

section \<open>Reading a trace\<close>

text \<open>The calls a method made: what it appended to the trace.\<close>

definition new_actions :: "'a env_scheme \<Rightarrow> 'a env_scheme \<Rightarrow> action list" where
  "new_actions s s' = drop (length (trace s)) (trace s')"

text \<open>The transactions constructed, and the notifications posted, in a list of calls.\<close>

fun constructed :: "action list \<Rightarrow> request list" where
  "constructed [] = []"
| "constructed (Construct r # acts) = r # constructed acts"
| "constructed (a # acts) = constructed acts"

fun posted :: "action list \<Rightarrow> notification list" where
  "posted [] = []"
| "posted (Post n # acts) = n # posted acts"
| "posted (a # acts) = posted acts"

section \<open>Example sessions\<close>

definition alice :: sip_uri where
  "alice = \<lparr>user = Some ''alice'', host = ''example.org''\<rparr>"

definition alice_contact :: sip_uri where
  "alice_contact = \<lparr>user = Some ''alice'', host = ''192.0.2.10''\<rparr>"

text \<open>An engine that accepts every request, and one that refuses every request.\<close>

definition engine_up :: engine where
  "engine_up =
     \<lparr>send_raises = (\<lambda>r. None), generated_call_id = (\<lambda>n. Some ''a84b4c76e66710''),
      state_of = (\<lambda>r. ''INIT'')\<rparr>"

definition engine_down :: engine where
  "engine_down =
     \<lparr>send_raises = (\<lambda>r. Some (EngineError ''no transport'')),
      generated_call_id = (\<lambda>n. Some ''a84b4c76e66710''), state_of = (\<lambda>r. ''INIT'')\<rparr>"

definition registration0 :: registration where
  "registration0 = Registration 0 alice None 300"

definition publication0 :: publication where
  "publication0 = Publication 0 alice ''presence'' ''application/pidf+xml'' None 300"

definition body1 :: string where
  "body1 = ''<presence/>''"

text \<open>Two calls of \<^verbatim>\<open>publish\<close> with a body, and the requests they construct.\<close>

definition pub_r0 :: request where
  "pub_r0 = pub_new_request (Some body1) ''route'' True publication0"

definition publication1 :: publication where
  "publication1 = snd (pub_publish engine_up (Some body1) ''route'' None publication0)"

definition pub_r1 :: request where
  "pub_r1 = pub_new_request (Some body1) ''route'' True publication1"

definition publication2 :: publication where
  "publication2 = snd (pub_publish engine_up (Some body1) ''route'' None publication1)"

text \<open>
  The second request is confirmed with the entity tag \<^verbatim>\<open>abc\<close>. From there: a refresh
  without a body, or a teardown; and the refresh refused with 412.
\<close>

definition etag_headers :: headers where
  "etag_headers = [''SIP-ETag'' \<mapsto> Str ''abc'']"

definition publication3 :: publication where
  "publication3 =
     snd (pub_NH_SIPRequestDidSucceed pub_r1 0 200 ''OK'' etag_headers None 300 publication2)"

definition pub_r2 :: request where
  "pub_r2 = pub_new_request None ''route'' True publication3"

definition publication4 :: publication where
  "publication4 = snd (pub_publish engine_up None ''route'' None publication3)"

definition pub_r2' :: request where
  "pub_r2' = pub_new_request None ''route'' False publication3"

definition publication5 :: publication where
  "publication5 = snd (pub_end engine_up None publication3)"

definition publication6 :: publication where
  "publication6 =
     snd (pub_NH_SIPRequestDidFail pub_r2 0 412 ''Conditional Request Failed'' None None
            publication4)"

text \<open>
  A registration: the first request sent, then either superseded by a second
  \<^verbatim>\<open>register\<close>, or confirmed and then refreshed.
\<close>

definition reg_r0 :: request where
  "reg_r0 = reg_new_request engine_up (Some alice_contact) ''route'' True registration0"

definition registration1 :: registration where
  "registration1 = snd (reg_register engine_up (Some alice_contact) ''route'' None registration0)"

definition registration1b :: registration where
  "registration1b = snd (reg_register engine_up (Some alice_contact) ''route'' None registration1)"

text \<open>
  The first request refused by the registrar (the session then holds no transaction),
  and \<^verbatim>\<open>register\<close> called again.
\<close>

definition registration1f :: registration where
  "registration1f =
     snd (reg_NH_SIPRequestDidFail reg_r0 0 403 ''Forbidden'' None None registration1)"

definition reg_r0' :: request where
  "reg_r0' = reg_new_request engine_up (Some alice_contact) ''route'' True registration1f"

definition registration1g :: registration where
  "registration1g =
     snd (reg_register engine_up (Some alice_contact) ''route'' None registration1f)"

definition contact_headers :: headers where
  "contact_headers = [''Contact'' \<mapsto> Uris [''sip:alice@192.0.2.10'']]"

definition registration2 :: registration where
  "registration2 =
     snd (reg_NH_SIPRequestDidSucceed reg_r0 0 200 ''OK'' contact_headers None 300 registration1)"

definition reg_r1 :: request where
  "reg_r1 = reg_new_request engine_up (Some alice_contact) ''route'' True registration2"

definition registration3 :: registration where
  "registration3 = snd (reg_register engine_up (Some alice_contact) ''route'' None registration2)"

text \<open>A message that has not been sent.\<close>

definition bob :: sip_uri where
  "bob = \<lparr>user = Some ''bob'', host = ''example.org''\<rparr>"

definition message0 :: message where
  "message0 = Message 0 1 alice bob ''route'' ''text/plain'' ''hello'' None"

section \<open>The vocabulary of the specification\<close>

text \<open>
  The inheritance rule of the specification: the new transaction's cseq is the previous
  one's plus 1, and its call-id is the previous one's. A session that starts afresh
  numbers its transaction 1 and gives it no call-id.
\<close>

definition inherits_from :: "engine \<Rightarrow> request \<Rightarrow> request \<Rightarrow> bool" where
  "inherits_from eng prev r = (cseq r = cseq prev + 1 \<and> call_id r = request_call_id eng prev)"

definition starts_fresh :: "request \<Rightarrow> bool" where
  "starts_fresh r = (cseq r = 1 \<and> call_id r = None)"

text \<open>
  Two held transactions are distinct objects; a session that holds fewer than two
  satisfies this trivially.
\<close>

definition held_distinct :: "request option \<Rightarrow> request option \<Rightarrow> bool" where
  "held_distinct cur lst =
     (case cur of
        None \<Rightarrow> True
      | Some c \<Rightarrow> (case lst of None \<Rightarrow> True | Some l \<Rightarrow> rid c \<noteq> rid l))"

text \<open>
  The invariant behind it: every transaction a session holds was constructed before the
  next one gets its identity, and the two held transactions are distinct.
\<close>

definition held_below :: "ref \<Rightarrow> request option \<Rightarrow> bool" where
  "held_below n held = (case held of None \<Rightarrow> True | Some r \<Rightarrow> rid r < n)"

definition reg_inv :: "registration \<Rightarrow> bool" where
  "reg_inv s =
     (held_below (next_ref s) (reg_current_request s) \<and>
      held_below (next_ref s) (reg_last_request s) \<and>
      held_distinct (reg_current_request s) (reg_last_request s))"

definition pub_inv :: "publication \<Rightarrow> bool" where
  "pub_inv s =
     (held_below (next_ref s) (pub_current_request s) \<and>
      held_below (next_ref s) (pub_last_request s) \<and>
      held_distinct (pub_current_request s) (pub_last_request s))"

text \<open>The inputs that lead to the example sessions \<open>registration3\<close> and \<open>publication4\<close>.\<close>

definition reg_inputs3 :: "reg_input list" where
  "reg_inputs3 =
     [RegRegister (Some alice_contact) ''route'' None,
      RegEvent (SIPRequestDidSucceed reg_r0 0 200 ''OK'' contact_headers None 300),
      RegRegister (Some alice_contact) ''route'' None]"

definition pub_inputs4 :: "pub_input list" where
  "pub_inputs4 =
     [PubPublish (Some body1) ''route'' None,
      PubPublish (Some body1) ''route'' None,
      PubEvent (SIPRequestDidSucceed pub_r1 0 200 ''OK'' etag_headers None 300),
      PubPublish None ''route'' None]"

section \<open>Facts about the model\<close>

lemmas example_defs =
  publication0_def Publication_def engine_up_def engine_down_def registration0_def
  Registration_def alice_def alice_contact_def body1_def pub_r0_def pub_r1_def
  publication1_def publication2_def reg_r0_def registration1_def registration1b_def
  contact_headers_def registration2_def reg_r1_def registration3_def etag_headers_def
  publication3_def pub_r2_def publication4_def pub_r2'_def publication5_def publication6_def
  bob_def message0_def Message_def registration1f_def reg_r0'_def registration1g_def

lemmas pub_defs =
  pub_publish_def pub_end_def pub_make_and_send_request_def pub_new_request_def
  pub_NH_SIPRequestDidSucceed_def pub_NH_SIPRequestDidFail_def pub_NH_SIPRequestDidEnd_def
  pub_NH_SIPRequestWillExpire_def is_same_def emit_def Let_def new_actions_def

lemmas reg_defs =
  reg_register_def reg_end_def reg_make_and_send_request_def reg_new_request_def
  reg_prev_request_def reg_NH_SIPRequestDidSucceed_def reg_NH_SIPRequestDidFail_def
  reg_NH_SIPRequestDidEnd_def reg_NH_SIPRequestWillExpire_def getitem_def request_call_id_def

lemmas msg_defs = msg_send_def msg_is_sent_def

lemmas eval_defs = example_defs pub_defs reg_defs msg_defs str_def str_nat.simps

lemma publication3_fields:
  "pub_current_request publication3 = None"
  "pub_last_request publication3 = Some pub_r1"
  "pub_last_etag publication3 = Some (Str ''abc'')"
  "pub_unpublishing publication3 = False"
  by (simp_all add: eval_defs)

lemma publication4_fields:
  "pub_current_request publication4 = Some pub_r2"
  "pub_last_request publication4 = Some pub_r1"
  "pub_last_etag publication4 = Some (Str ''abc'')"
  "pub_unpublishing publication4 = False"
  by (simp_all add: eval_defs)

lemma publication5_fields:
  "pub_current_request publication5 = Some pub_r2'"
  "pub_last_request publication5 = Some pub_r1"
  "pub_last_etag publication5 = Some (Str ''abc'')"
  "pub_unpublishing publication5 = True"
  by (simp_all add: eval_defs)

lemma publication6_fields:
  "pub_current_request publication6 = None"
  "pub_last_request publication6 = Some pub_r1"
  "pub_last_etag publication6 = None"
  by (simp_all add: eval_defs)

lemma registration3_fields:
  "reg_current_request registration3 = Some reg_r1"
  "reg_last_request registration3 = Some reg_r0"
  "rid reg_r0 = 0"
  "rid reg_r1 = 1"
  by (simp_all add: eval_defs)

lemma new_actions_self [simp]: "new_actions s s = []"
  by (simp add: new_actions_def)

lemma reg_mk_constructed:
  "constructed (new_actions s (snd (reg_make_and_send_request eng contact rt tmo d s))) =
     [reg_new_request eng contact rt d s]"
  by (simp add: reg_make_and_send_request_def Let_def new_actions_def emit_def
      split: option.splits)

lemma pub_mk_constructed:
  "constructed (new_actions s (snd (pub_make_and_send_request eng b rt tmo d s))) =
     [pub_new_request b rt d s]"
  by (simp add: pub_make_and_send_request_def Let_def new_actions_def emit_def
      split: option.splits)

lemma reg_new_request_ids:
  "(case reg_current_request s of
      Some cur \<Rightarrow> inherits_from eng cur (reg_new_request eng contact rt d s)
    | None \<Rightarrow>
       (case reg_last_request s of
          Some lst \<Rightarrow> inherits_from eng lst (reg_new_request eng contact rt d s)
        | None \<Rightarrow> starts_fresh (reg_new_request eng contact rt d s)))"
  by (simp add: reg_new_request_def reg_prev_request_def inherits_from_def starts_fresh_def
      split: option.splits)

lemma pub_new_request_ids: "starts_fresh (pub_new_request b rt d s)"
  by (simp add: pub_new_request_def starts_fresh_def Let_def)

section \<open>The claims\<close>

text \<open>
  C1, as the code has it. Every call of Registration's \<^verbatim>\<open>_make_and_send_request\<close> (so
  every \<^verbatim>\<open>register\<close>, and every \<^verbatim>\<open>end\<close> of a registered session) constructs exactly
  one transaction. Its cseq is the previous transaction's plus 1 and its call-id is the
  previous transaction's, where the previous transaction is the current one if there is
  one, else the last one. Whenever the session holds neither, at its first call or at
  a later one, the transaction has cseq 1 and no call-id. Publication does not inherit:
  every transaction it constructs has cseq 1 and no call-id, whatever the session
  holds.
\<close>

theorem new_transaction_ids:
  "(\<exists>r. constructed (new_actions s (snd (reg_make_and_send_request eng contact rt tmo d s))) = [r] \<and>
        (case reg_current_request s of
           Some cur \<Rightarrow> inherits_from eng cur r
         | None \<Rightarrow>
            (case reg_last_request s of
               Some lst \<Rightarrow> inherits_from eng lst r
             | None \<Rightarrow> starts_fresh r))) \<and>
   (\<exists>r. constructed (new_actions p (snd (pub_make_and_send_request eng b rt' tmo' d' p))) = [r] \<and>
        starts_fresh r)"
  using reg_new_request_ids [where s = s and eng = eng] pub_new_request_ids
  by (simp add: reg_mk_constructed pub_mk_constructed)

text \<open>
  C1 as stated fails, for both session types.

  Publication: the second of two \<^verbatim>\<open>publish\<close> calls finds the first transaction
  current, with cseq 1 and the engine's call-id, and constructs a transaction that has
  cseq 1 again and no call-id.

  Registration: the first \<^verbatim>\<open>register\<close> constructs a transaction with cseq 1, to which
  the engine gives a call-id. Its failure clears the current transaction, and nothing
  was ever confirmed. The second \<^verbatim>\<open>register\<close> of the same session then constructs a
  transaction that again has cseq 1 and no call-id: it is not the first transaction of
  the session, and the established call-id is not passed on to it.
\<close>

theorem cseq_inheritance_counterexample:
  "pub_current_request publication1 = Some pub_r0 \<and>
   constructed (new_actions publication1 publication2) = [pub_r1] \<and>
   \<not> inherits_from engine_up pub_r0 pub_r1 \<and>
   constructed (trace registration1g) = [reg_r0, reg_r0'] \<and>
   request_call_id engine_up reg_r0 = Some ''a84b4c76e66710'' \<and>
   starts_fresh reg_r0' \<and>
   call_id reg_r0' \<noteq> request_call_id engine_up reg_r0 \<and>
   \<not> inherits_from engine_up reg_r0 reg_r0'"
  by (simp add: eval_defs inherits_from_def starts_fresh_def)

text \<open>
  C2: when \<^verbatim>\<open>send\<close> raises, the session removes the observer it has just added and
  raises the failure to its caller. \<^verbatim>\<open>Message.send\<close> does not: its \<^verbatim>\<open>except\<close> clause
  removes the observer and ends without \<^verbatim>\<open>raise\<close>, so the call returns normally. Here
  the engine refuses the request of an unsent message, and \<^verbatim>\<open>send\<close> returns no error.
\<close>

theorem message_send_swallows_failure:
  "send_raises engine_down (msg_request message0) = Some (EngineError ''no transport'') \<and>
   msg_send engine_down None message0 =
     (None, message0\<lparr>trace := [AddObserver 0, Send 0 None, RemoveObserver 0]\<rparr>)"
  by (simp add: eval_defs)

text \<open>
  Registration and Publication do what C2 says: the failure of \<^verbatim>\<open>send\<close> leaves
  \<^verbatim>\<open>_make_and_send_request\<close> as the method's exception, after the observer of the new
  request has been removed.
\<close>

lemma reg_send_failure:
  "send_raises eng (reg_new_request eng contact rt d s) = Some e \<Longrightarrow>
   fst (reg_make_and_send_request eng contact rt tmo d s) = Some e \<and>
   last (trace (snd (reg_make_and_send_request eng contact rt tmo d s))) =
     RemoveObserver (next_ref s)"
  by (simp add: reg_make_and_send_request_def reg_new_request_def Let_def emit_def
      split: option.splits prod.splits)

lemma pub_send_failure:
  "send_raises eng (pub_new_request b rt d s) = Some e \<Longrightarrow>
   fst (pub_make_and_send_request eng b rt tmo d s) = Some e \<and>
   last (trace (snd (pub_make_and_send_request eng b rt tmo d s))) =
     RemoveObserver (next_ref s)"
  by (simp add: pub_make_and_send_request_def pub_new_request_def Let_def emit_def
      split: option.splits prod.splits)

text \<open>
  C3, as the code has it. Publication's handler of a transaction's end always removes
  the observer of that transaction. When the transaction is the session's last
  transaction, the handler clears the entity tag together with the last and the current
  transaction and posts \<^verbatim>\<open>SIPPublicationDidEnd\<close> with \<^verbatim>\<open>expired=True\<close>. For any other
  transaction it returns after removing the observer, and the entity tag stays.
\<close>

theorem publication_end_of_last_clears_etag:
  "(is_same r (pub_last_request p) \<longrightarrow>
      fst (pub_NH_SIPRequestDidEnd r ts p) = None \<and>
      pub_last_etag (snd (pub_NH_SIPRequestDidEnd r ts p)) = None \<and>
      pub_last_request (snd (pub_NH_SIPRequestDidEnd r ts p)) = None \<and>
      pub_current_request (snd (pub_NH_SIPRequestDidEnd r ts p)) = None \<and>
      RemoveObserver (rid r) \<in> set (new_actions p (snd (pub_NH_SIPRequestDidEnd r ts p))) \<and>
      posted (new_actions p (snd (pub_NH_SIPRequestDidEnd r ts p))) = [SIPPublicationDidEnd True]) \<and>
   (\<not> is_same r (pub_last_request p) \<longrightarrow>
      pub_NH_SIPRequestDidEnd r ts p = (None, emit (RemoveObserver (rid r)) p) \<and>
      pub_last_etag (snd (pub_NH_SIPRequestDidEnd r ts p)) = pub_last_etag p)"
  by (simp add: pub_NH_SIPRequestDidEnd_def is_same_def emit_def Let_def new_actions_def
      split: option.splits)

text \<open>
  C3 at a session whose last transaction is the second request, with entity tag
  \<^verbatim>\<open>abc\<close>: the end of the second request clears the tag, the end of the first keeps it.
\<close>

theorem publication_end_of_last_clears_etag_witness:
  "is_same pub_r1 (pub_last_request publication3) \<and>
   pub_last_etag publication3 = Some (Str ''abc'') \<and>
   pub_last_etag (snd (pub_NH_SIPRequestDidEnd pub_r1 0 publication3)) = None \<and>
   \<not> is_same pub_r0 (pub_last_request publication3) \<and>
   pub_last_etag (snd (pub_NH_SIPRequestDidEnd pub_r0 0 publication3)) =
     pub_last_etag publication3"
  using publication_end_of_last_clears_etag [of pub_r1 publication3 0]
    publication_end_of_last_clears_etag [of pub_r0 publication3 0]
  by (simp add: publication3_fields eval_defs)

text \<open>
  C3 as stated fails. Two \<^verbatim>\<open>publish\<close> calls construct two transactions, the second
  superseding the first; the second succeeds with entity tag \<^verbatim>\<open>abc\<close>. When the end of
  the first, superseded transaction is then handled, the entity tag is still there.
\<close>

theorem publication_stale_end_counterexample:
  "constructed (trace publication3) = [pub_r0, pub_r1] \<and>
   pub_last_etag publication3 = Some (Str ''abc'') \<and>
   pub_last_etag (snd (pub_NH_SIPRequestDidEnd pub_r0 0 publication3)) \<noteq> None"
  by (simp add: eval_defs)

text \<open>
  C4: a success of a registration whose headers have no \<^verbatim>\<open>Contact\<close> entry is to be
  handled without raising, posting \<^verbatim>\<open>SIPRegistrationDidSucceed\<close> with an empty contact
  list. The handler reads \<^verbatim>\<open>headers["Contact"]\<close> under \<^verbatim>\<open>except IndexError\<close>; a dictionary
  without the key raises \<^verbatim>\<open>KeyError\<close>, which that clause does not catch. Here the first
  \<^verbatim>\<open>register\<close> succeeds with empty headers: the handler raises \<^verbatim>\<open>KeyError\<close> and posts
  nothing. With an empty \<^verbatim>\<open>Contact\<close> list in the headers it posts the notification.
\<close>

theorem registration_success_without_contact:
  "reg_current_request registration1 = Some reg_r0 \<and>
   \<not> reg_unregistering registration1 \<and>
   fst (reg_NH_SIPRequestDidSucceed reg_r0 0 200 ''OK'' Map.empty None 300 registration1) =
     Some (KeyError ''Contact'') \<and>
   posted (new_actions registration1
     (snd (reg_NH_SIPRequestDidSucceed reg_r0 0 200 ''OK'' Map.empty None 300 registration1))) =
     [] \<and>
   fst (reg_NH_SIPRequestDidSucceed reg_r0 0 200 ''OK'' [''Contact'' \<mapsto> Uris []] None 300
          registration1) = None \<and>
   posted (new_actions registration1
     (snd (reg_NH_SIPRequestDidSucceed reg_r0 0 200 ''OK'' [''Contact'' \<mapsto> Uris []] None 300
            registration1))) =
     [SIPRegistrationDidSucceed 200 ''OK'' (Some alice_contact) (Uris []) 300 ''route'']"
  by (simp add: eval_defs)

text \<open>
  C5: \<^verbatim>\<open>publish\<close> without a body raises \<^verbatim>\<open>ValueError\<close> when the session has no last
  transaction, and \<^verbatim>\<open>PublicationError\<close> when it has one but no entity tag; in both cases
  the session is as before, so no transaction has been constructed. With a body,
  whatever the session holds, \<^verbatim>\<open>publish\<close> constructs one transaction carrying the body
  and the route, and sends it.
\<close>

theorem publish_body_rules:
  "(pub_last_request s = None \<longrightarrow>
      pub_publish eng None rt tmo s = (Some (ValueError ''Need body for initial PUBLISH''), s)) \<and>
   (pub_last_request s \<noteq> None \<and> pub_last_etag s = None \<longrightarrow>
      pub_publish eng None rt tmo s =
        (Some (PublicationError ''Cannot refresh, last ETag was invalid''), s)) \<and>
   (\<exists>r. constructed (new_actions s (snd (pub_publish eng (Some b) rt tmo s))) = [r] \<and>
        body r = Some b \<and> route r = rt \<and>
        Send (rid r) tmo \<in> set (new_actions s (snd (pub_publish eng (Some b) rt tmo s))))"
  by (simp add: pub_publish_def pub_make_and_send_request_def pub_new_request_def Let_def
      new_actions_def emit_def split: option.splits)

text \<open>
  C5 at a new session, and at a session whose refresh was refused with 412 (a last
  transaction, no entity tag).
\<close>

theorem publish_body_rules_witness:
  "pub_last_request publication0 = None \<and>
   pub_publish engine_up None ''route'' None publication0 =
     (Some (ValueError ''Need body for initial PUBLISH''), publication0) \<and>
   pub_last_request publication6 \<noteq> None \<and> pub_last_etag publication6 = None \<and>
   pub_publish engine_up None ''route'' None publication6 =
     (Some (PublicationError ''Cannot refresh, last ETag was invalid''), publication6) \<and>
   constructed (new_actions publication6
     (snd (pub_publish engine_up (Some body1) ''route'' None publication6))) \<noteq> []"
  using publish_body_rules [of publication0 engine_up "''route''" None body1]
    publish_body_rules [of publication6 engine_up "''route''" None body1]
  by (auto simp add: publication6_fields publication0_def Publication_def)

text \<open>
  C6: \<^verbatim>\<open>end\<close> on a Registration without a last transaction returns with the session as
  it was: no transaction, no error. \<^verbatim>\<open>end\<close> on a Publication without a last transaction
  raises \<^verbatim>\<open>PublicationError\<close>, with the session as it was.
\<close>

theorem end_of_inactive_session:
  "(reg_last_request s = None \<longrightarrow> reg_end eng tmo s = (None, s)) \<and>
   (pub_last_request p = None \<longrightarrow>
      pub_end eng tmo p = (Some (PublicationError ''Nothing is currently published''), p))"
  by (simp add: reg_end_def pub_end_def)

text \<open>C6 at a new Registration and a new Publication.\<close>

theorem end_of_inactive_session_witness:
  "reg_last_request registration0 = None \<and>
   reg_end engine_up None registration0 = (None, registration0) \<and>
   pub_last_request publication0 = None \<and>
   pub_end engine_up None publication0 =
     (Some (PublicationError ''Nothing is currently published''), publication0)"
  using end_of_inactive_session [of registration0 engine_up None publication0]
  by (simp add: registration0_def Registration_def publication0_def Publication_def)

text \<open>
  C7: when the failing transaction is the current one and the code is 412, the
  Publication's entity tag is absent afterwards, whether the session was publishing or
  unpublishing.
\<close>

theorem failure_412_clears_etag:
  "is_same r (pub_current_request p) \<Longrightarrow>
   pub_last_etag (snd (pub_NH_SIPRequestDidFail r ts 412 reason hdrs bdy p)) = None"
  by (simp add: pub_NH_SIPRequestDidFail_def Let_def emit_def)

text \<open>C7 at a refresh and at a teardown, both in flight with the entity tag \<^verbatim>\<open>abc\<close>.\<close>

theorem failure_412_clears_etag_witness:
  "is_same pub_r2 (pub_current_request publication4) \<and> \<not> pub_unpublishing publication4 \<and>
   pub_last_etag publication4 = Some (Str ''abc'') \<and>
   pub_last_etag (snd (pub_NH_SIPRequestDidFail pub_r2 0 412 ''Conditional Request Failed''
                         None None publication4)) = None \<and>
   is_same pub_r2' (pub_current_request publication5) \<and> pub_unpublishing publication5 \<and>
   pub_last_etag publication5 = Some (Str ''abc'') \<and>
   pub_last_etag (snd (pub_NH_SIPRequestDidFail pub_r2' 0 412 ''Conditional Request Failed''
                         None None publication5)) = None"
  using failure_412_clears_etag [of pub_r2 publication4 0 "''Conditional Request Failed''" None None]
    failure_412_clears_etag [of pub_r2' publication5 0 "''Conditional Request Failed''" None None]
  by (simp add: publication4_fields publication5_fields is_same_def)

text \<open>
  C8: a success or a failure of a transaction that is not the session's current one
  leaves a Registration and a Publication exactly as they were: no field changes and
  nothing is posted. The end of a transaction that is not the session's last one only
  removes the observer of that transaction.
\<close>

theorem stale_event_is_ignored:
  "(\<not> is_same r (reg_current_request s) \<longrightarrow>
      reg_NH_SIPRequestDidSucceed r ts code reason hdrs bdy expires s = (None, s) \<and>
      reg_NH_SIPRequestDidFail r ts code reason ohdrs bdy s = (None, s)) \<and>
   (\<not> is_same r (pub_current_request p) \<longrightarrow>
      pub_NH_SIPRequestDidSucceed r ts code reason hdrs bdy expires p = (None, p) \<and>
      pub_NH_SIPRequestDidFail r ts code reason ohdrs bdy p = (None, p)) \<and>
   (\<not> is_same r (reg_last_request s) \<longrightarrow>
      reg_NH_SIPRequestDidEnd r ts s =
        (None, s\<lparr>trace := trace s @ [RemoveObserver (rid r)]\<rparr>)) \<and>
   (\<not> is_same r (pub_last_request p) \<longrightarrow>
      pub_NH_SIPRequestDidEnd r ts p =
        (None, p\<lparr>trace := trace p @ [RemoveObserver (rid r)]\<rparr>))"
  by (simp add: reg_NH_SIPRequestDidSucceed_def reg_NH_SIPRequestDidFail_def
      pub_NH_SIPRequestDidSucceed_def pub_NH_SIPRequestDidFail_def
      reg_NH_SIPRequestDidEnd_def pub_NH_SIPRequestDidEnd_def emit_def Let_def is_same_def)

text \<open>
  C8 at a Registration and a Publication whose first request was superseded by a
  second: the events of the first request are stale.
\<close>

theorem stale_event_is_ignored_witness:
  "\<not> is_same reg_r0 (reg_current_request registration1b) \<and>
   reg_NH_SIPRequestDidSucceed reg_r0 0 200 ''OK'' contact_headers None 300 registration1b =
     (None, registration1b) \<and>
   reg_NH_SIPRequestDidFail reg_r0 0 408 ''Timeout'' None None registration1b =
     (None, registration1b) \<and>
   \<not> is_same pub_r0 (pub_current_request publication2) \<and>
   pub_NH_SIPRequestDidSucceed pub_r0 0 200 ''OK'' etag_headers None 300 publication2 =
     (None, publication2) \<and>
   pub_NH_SIPRequestDidFail pub_r0 0 408 ''Timeout'' None None publication2 =
     (None, publication2) \<and>
   \<not> is_same reg_r0 (reg_last_request registration1b) \<and>
   reg_NH_SIPRequestDidEnd reg_r0 0 registration1b =
     (None, registration1b\<lparr>trace := trace registration1b @ [RemoveObserver 0]\<rparr>) \<and>
   \<not> is_same pub_r0 (pub_last_request publication2) \<and>
   pub_NH_SIPRequestDidEnd pub_r0 0 publication2 =
     (None, publication2\<lparr>trace := trace publication2 @ [RemoveObserver 0]\<rparr>)"
proof -
  have stale:
    "\<not> is_same reg_r0 (reg_current_request registration1b)"
    "\<not> is_same pub_r0 (pub_current_request publication2)"
    "\<not> is_same reg_r0 (reg_last_request registration1b)"
    "\<not> is_same pub_r0 (pub_last_request publication2)"
    by (simp_all add: eval_defs)
  have ids: "rid reg_r0 = 0" "rid pub_r0 = 0"
    by (simp_all add: eval_defs)
  show ?thesis
    using stale ids
      stale_event_is_ignored [of reg_r0 registration1b 0 200 "''OK''" contact_headers None 300 None]
      stale_event_is_ignored [of reg_r0 registration1b 0 408 "''Timeout''" contact_headers None 300 None]
      stale_event_is_ignored [of pub_r0 _ 0 200 "''OK''" etag_headers None 300 None publication2]
      stale_event_is_ignored [of pub_r0 _ 0 408 "''Timeout''" etag_headers None 300 None publication2]
    by simp
qed

section \<open>The invariant of the two held transactions\<close>

lemmas inv_defs = reg_inv_def pub_inv_def held_below_def held_distinct_def

lemma reg_inv_emit [simp]: "reg_inv (emit a s) = reg_inv s"
  by (simp add: reg_inv_def emit_def)

lemma pub_inv_emit [simp]: "pub_inv (emit a s) = pub_inv s"
  by (simp add: pub_inv_def emit_def)

lemma reg_inv_make:
  assumes "reg_inv s"
  shows "reg_inv (snd (reg_make_and_send_request eng contact rt tmo d s))"
proof (cases "send_raises eng (reg_new_request eng contact rt d s)")
  case None
  then show ?thesis
    using assms
    by (cases "reg_current_request s")
       (auto simp add: inv_defs reg_make_and_send_request_def reg_new_request_def Let_def emit_def
         split: option.splits)
next
  case (Some e)
  then show ?thesis
    using assms
    by (cases "reg_current_request s")
       (auto simp add: inv_defs reg_make_and_send_request_def reg_new_request_def Let_def emit_def
         split: option.splits)
qed

lemma reg_inv_end:
  assumes "reg_inv s"
  shows "reg_inv (snd (reg_end eng tmo s))"
proof (cases "reg_last_request s")
  case None
  then show ?thesis using assms by (simp add: reg_end_def)
next
  case (Some lst)
  obtain x s' where m: "reg_make_and_send_request eng (contact_uri lst) (route lst) tmo False s = (x, s')"
    by (cases "reg_make_and_send_request eng (contact_uri lst) (route lst) tmo False s")
  have "reg_inv s'"
    using reg_inv_make [OF assms, of eng "contact_uri lst" "route lst" tmo False] m by simp
  then show ?thesis
    using Some m by (cases x) (simp_all add: reg_end_def)
qed

lemma reg_inv_succeed:
  "reg_inv s \<Longrightarrow> reg_inv (snd (reg_NH_SIPRequestDidSucceed r ts code reason hdrs bdy expires s))"
  by (cases "reg_current_request s"; cases "reg_last_request s"; cases "getitem hdrs ''Contact''")
     (auto simp add: inv_defs reg_NH_SIPRequestDidSucceed_def is_same_def Let_def emit_def
       split: exn.splits)

lemma reg_inv_fail:
  "reg_inv s \<Longrightarrow> reg_inv (snd (reg_NH_SIPRequestDidFail r ts code reason hdrs bdy s))"
  by (cases "reg_current_request s"; cases "reg_last_request s")
     (auto simp add: inv_defs reg_NH_SIPRequestDidFail_def is_same_def Let_def emit_def)

lemma reg_inv_expire:
  "reg_inv s \<Longrightarrow> reg_inv (snd (reg_NH_SIPRequestWillExpire r ts expires s))"
  by (simp add: reg_NH_SIPRequestWillExpire_def)

lemma reg_inv_ended:
  "reg_inv s \<Longrightarrow> reg_inv (snd (reg_NH_SIPRequestDidEnd r ts s))"
  by (cases "reg_current_request s"; cases "reg_last_request s")
     (auto simp add: inv_defs reg_NH_SIPRequestDidEnd_def is_same_def Let_def emit_def)

lemma reg_inv_handle: "reg_inv s \<Longrightarrow> reg_inv (snd (reg_handle ev s))"
  by (cases ev) (simp_all add: reg_inv_succeed reg_inv_fail reg_inv_expire reg_inv_ended)

lemma reg_inv_step: "reg_inv s \<Longrightarrow> reg_inv (snd (reg_step eng i s))"
  by (cases i) (simp_all add: reg_register_def reg_inv_make reg_inv_end reg_inv_handle)

lemma reg_inv_run: "reg_inv s \<Longrightarrow> reg_inv (reg_run eng ins s)"
  by (induction ins arbitrary: s) (simp_all add: reg_inv_step)

lemma reg_inv_init: "reg_inv (Registration n u c d)"
  by (simp add: inv_defs Registration_def)


lemma pub_inv_make:
  assumes "pub_inv s"
  shows "pub_inv (snd (pub_make_and_send_request eng b rt tmo d s))"
proof (cases "send_raises eng (pub_new_request b rt d s)")
  case None
  then show ?thesis
    using assms
    by (cases "pub_current_request s")
       (auto simp add: inv_defs pub_make_and_send_request_def pub_new_request_def Let_def emit_def
         split: option.splits)
next
  case (Some e)
  then show ?thesis
    using assms
    by (cases "pub_current_request s")
       (auto simp add: inv_defs pub_make_and_send_request_def pub_new_request_def Let_def emit_def
         split: option.splits)
qed

lemma pub_inv_publish: "pub_inv s \<Longrightarrow> pub_inv (snd (pub_publish eng b rt tmo s))"
  by (simp add: pub_publish_def pub_inv_make)

lemma pub_inv_end:
  assumes "pub_inv s"
  shows "pub_inv (snd (pub_end eng tmo s))"
proof (cases "pub_last_request s")
  case None
  then show ?thesis using assms by (simp add: pub_end_def)
next
  case (Some lst)
  obtain x s' where m: "pub_make_and_send_request eng None (route lst) tmo False s = (x, s')"
    by (cases "pub_make_and_send_request eng None (route lst) tmo False s")
  have "pub_inv s'"
    using pub_inv_make [OF assms, of eng None "route lst" tmo False] m by simp
  then show ?thesis
    using Some m by (cases x) (simp_all add: pub_end_def)
qed

lemma pub_inv_succeed:
  "pub_inv s \<Longrightarrow> pub_inv (snd (pub_NH_SIPRequestDidSucceed r ts code reason hdrs bdy expires s))"
  by (cases "pub_current_request s"; cases "pub_last_request s")
     (auto simp add: inv_defs pub_NH_SIPRequestDidSucceed_def is_same_def Let_def emit_def)

lemma pub_inv_fail:
  "pub_inv s \<Longrightarrow> pub_inv (snd (pub_NH_SIPRequestDidFail r ts code reason hdrs bdy s))"
  by (cases "pub_current_request s"; cases "pub_last_request s")
     (auto simp add: inv_defs pub_NH_SIPRequestDidFail_def is_same_def Let_def emit_def)

lemma pub_inv_expire:
  "pub_inv s \<Longrightarrow> pub_inv (snd (pub_NH_SIPRequestWillExpire r ts expires s))"
  by (simp add: pub_NH_SIPRequestWillExpire_def)

lemma pub_inv_ended:
  "pub_inv s \<Longrightarrow> pub_inv (snd (pub_NH_SIPRequestDidEnd r ts s))"
  by (cases "pub_current_request s"; cases "pub_last_request s")
     (auto simp add: inv_defs pub_NH_SIPRequestDidEnd_def is_same_def Let_def emit_def)

lemma pub_inv_handle: "pub_inv s \<Longrightarrow> pub_inv (snd (pub_handle ev s))"
  by (cases ev) (simp_all add: pub_inv_succeed pub_inv_fail pub_inv_expire pub_inv_ended)

lemma pub_inv_step: "pub_inv s \<Longrightarrow> pub_inv (snd (pub_step eng i s))"
  by (cases i) (simp_all add: pub_inv_publish pub_inv_end pub_inv_handle)

lemma pub_inv_run: "pub_inv s \<Longrightarrow> pub_inv (pub_run eng ins s)"
  by (induction ins arbitrary: s) (simp_all add: pub_inv_step)

lemma pub_inv_init: "pub_inv (Publication n u ev ct c d)"
  by (simp add: inv_defs Publication_def)

lemma reg_run3: "reg_run engine_up reg_inputs3 (Registration 0 alice None 300) = registration3"
  by (simp add: reg_inputs3_def registration3_def registration2_def registration1_def
      registration0_def)

lemma pub_run4:
  "pub_run engine_up pub_inputs4 (Publication 0 alice ''presence'' ''application/pidf+xml'' None 300)
     = publication4"
  by (simp add: pub_inputs4_def publication4_def publication3_def publication2_def
      publication1_def publication0_def)

lemma pub_r_ids: "rid pub_r1 = 1" "rid pub_r2 = 2"
  by (simp_all add: eval_defs)


text \<open>
  C9: after any sequence of method calls and request notifications, with any engine
  and any arguments, the current and the last transaction of a Registration and of a
  Publication are distinct objects whenever both are held.
\<close>

theorem current_and_last_are_distinct:
  "held_distinct (reg_current_request (reg_run eng ins (Registration n u c d)))
                 (reg_last_request (reg_run eng ins (Registration n u c d))) \<and>
   held_distinct (pub_current_request (pub_run eng' ins' (Publication n' u' ev ct c' d')))
                 (pub_last_request (pub_run eng' ins' (Publication n' u' ev ct c' d')))"
  using reg_inv_run [OF reg_inv_init, of eng ins n u c d]
    pub_inv_run [OF pub_inv_init, of eng' ins' n' u' ev ct c' d']
  by (simp add: reg_inv_def pub_inv_def)

text \<open>
  C9 at runs that end with both transactions held: a confirmed registration being
  refreshed, and a confirmed publication being refreshed.
\<close>

theorem current_and_last_are_distinct_witness:
  "reg_current_request (reg_run engine_up reg_inputs3 (Registration 0 alice None 300)) = Some reg_r1 \<and>
   reg_last_request (reg_run engine_up reg_inputs3 (Registration 0 alice None 300)) = Some reg_r0 \<and>
   rid reg_r1 \<noteq> rid reg_r0 \<and>
   pub_current_request (pub_run engine_up pub_inputs4
     (Publication 0 alice ''presence'' ''application/pidf+xml'' None 300)) = Some pub_r2 \<and>
   pub_last_request (pub_run engine_up pub_inputs4
     (Publication 0 alice ''presence'' ''application/pidf+xml'' None 300)) = Some pub_r1 \<and>
   rid pub_r2 \<noteq> rid pub_r1"
  using current_and_last_are_distinct [of engine_up reg_inputs3 0 alice None 300
      engine_up pub_inputs4 0 alice "''presence''" "''application/pidf+xml''" None 300]
  by (simp add: reg_run3 pub_run4 registration3_fields publication4_fields held_distinct_def)

text \<open>
  C10: when a new request supersedes the current one and its \<^verbatim>\<open>send\<close> raises, the
  failure is raised to the caller, the session has no current transaction, the
  superseded transaction has received \<^verbatim>\<open>end()\<close>, and the last transaction and the
  teardown flag are as before the call.
\<close>

theorem supersession_is_not_rolled_back:
  "(reg_current_request s = Some old \<and>
    send_raises eng (reg_new_request eng contact rt d s) = Some e \<longrightarrow>
      fst (reg_make_and_send_request eng contact rt tmo d s) = Some e \<and>
      reg_current_request (snd (reg_make_and_send_request eng contact rt tmo d s)) = None \<and>
      EndRequest (rid old) \<in>
        set (new_actions s (snd (reg_make_and_send_request eng contact rt tmo d s))) \<and>
      reg_last_request (snd (reg_make_and_send_request eng contact rt tmo d s)) =
        reg_last_request s \<and>
      reg_unregistering (snd (reg_make_and_send_request eng contact rt tmo d s)) =
        reg_unregistering s) \<and>
   (pub_current_request p = Some old' \<and>
    send_raises eng (pub_new_request b rt' d' p) = Some e' \<longrightarrow>
      fst (pub_make_and_send_request eng b rt' tmo' d' p) = Some e' \<and>
      pub_current_request (snd (pub_make_and_send_request eng b rt' tmo' d' p)) = None \<and>
      EndRequest (rid old') \<in>
        set (new_actions p (snd (pub_make_and_send_request eng b rt' tmo' d' p))) \<and>
      pub_last_request (snd (pub_make_and_send_request eng b rt' tmo' d' p)) =
        pub_last_request p \<and>
      pub_unpublishing (snd (pub_make_and_send_request eng b rt' tmo' d' p)) =
        pub_unpublishing p)"
  by (simp add: reg_make_and_send_request_def pub_make_and_send_request_def Let_def emit_def
      new_actions_def)

text \<open>
  C10 at a registration and a publication with a refresh in flight, when the engine
  refuses the next request.
\<close>

theorem supersession_is_not_rolled_back_witness:
  "reg_current_request registration3 = Some reg_r1 \<and>
   send_raises engine_down
     (reg_new_request engine_down (Some alice_contact) ''route'' True registration3) =
     Some (EngineError ''no transport'') \<and>
   fst (reg_register engine_down (Some alice_contact) ''route'' None registration3) =
     Some (EngineError ''no transport'') \<and>
   reg_current_request
     (snd (reg_register engine_down (Some alice_contact) ''route'' None registration3)) = None \<and>
   reg_last_request
     (snd (reg_register engine_down (Some alice_contact) ''route'' None registration3)) =
     Some reg_r0 \<and>
   pub_current_request publication4 = Some pub_r2 \<and>
   send_raises engine_down (pub_new_request (Some body1) ''route'' True publication4) =
     Some (EngineError ''no transport'') \<and>
   fst (pub_publish engine_down (Some body1) ''route'' None publication4) =
     Some (EngineError ''no transport'') \<and>
   pub_current_request (snd (pub_publish engine_down (Some body1) ''route'' None publication4)) =
     None \<and>
   pub_last_request (snd (pub_publish engine_down (Some body1) ''route'' None publication4)) =
     Some pub_r1"
  using supersession_is_not_rolled_back [of registration3 reg_r1 engine_down "Some alice_contact"
      "''route''" True "EngineError ''no transport''" None publication4 pub_r2 "Some body1"
      "''route''" True "EngineError ''no transport''" None]
  by (simp add: registration3_fields publication4_fields reg_register_def pub_publish_def
      engine_down_def)

end
